theory Spec2Isabelle
  imports Complex_Main
begin

chapter \<open>Closest points of two convex hulls: GJK and EPA\<close>

text \<open>
  A shallow embedding of the Go package \<^verbatim>\<open>closest\<close>: the support oracle and the simplex
  vertex (\<^verbatim>\<open>vertex.go\<close>), the measurement state with its GJK driver, simplex reducer, cycle
  detector, output resolver and EPA driver, and the faces of the EPA polytope.

  \<^item> The methods of \<^verbatim>\<open>Measure\<close> mutate the receiver; here each takes the state and returns
    the new one.
  \<^item> A Go panic is the left injection of a sum, a loop that might not end is a partial
    function into \<open>option\<close>: \<open>None\<close> is divergence, \<open>Some (Inl e)\<close> a panic, \<open>Some (Inr x)\<close> a
    normal return.
  \<^item> The simplex is a slice of pointers to vertices.  Every live element points to a vertex
    of its own (created by one \<^verbatim>\<open>newVertex\<close> call), so a list of vertex records has the same
    behaviour.
\<close>

section \<open>Scalars and three-dimensional vectors\<close>

text \<open>
  A Go \<^verbatim>\<open>float64\<close> is modelled as a finite real number, one of the two infinities, or
  not-a-number.  Arithmetic on the special values follows IEEE 754; arithmetic on finite
  values is exact, so rounding, overflow and underflow are not part of the model.  The
  model has one zero: where the sign of a zero divisor would matter the divisor is read
  as \<open>+0\<close>, which is what the program produces (its zero divisors are sums of squares, or
  sums accumulated from the literal \<^verbatim>\<open>0.0\<close>).
\<close>

datatype f64 = Fin real | PInf | NInf | NaN

fun fneg :: "f64 \<Rightarrow> f64" where
  "fneg (Fin x) = Fin (- x)"
| "fneg PInf = NInf"
| "fneg NInf = PInf"
| "fneg NaN = NaN"

fun fpos :: "f64 \<Rightarrow> bool" where
  "fpos (Fin x) = (0 < x)"
| "fpos PInf = True"
| "fpos NInf = False"
| "fpos NaN = False"

fun fadd :: "f64 \<Rightarrow> f64 \<Rightarrow> f64" where
  "fadd (Fin x) (Fin y) = Fin (x + y)"
| "fadd NaN b = NaN"
| "fadd a NaN = NaN"
| "fadd PInf NInf = NaN"
| "fadd NInf PInf = NaN"
| "fadd PInf b = PInf"
| "fadd NInf b = NInf"
| "fadd a PInf = PInf"
| "fadd a NInf = NInf"

definition fsub :: "f64 \<Rightarrow> f64 \<Rightarrow> f64" where
  "fsub a b = fadd a (fneg b)"

fun fmul :: "f64 \<Rightarrow> f64 \<Rightarrow> f64" where
  "fmul (Fin x) (Fin y) = Fin (x * y)"
| "fmul NaN b = NaN"
| "fmul a NaN = NaN"
| "fmul a b = (if a = Fin 0 \<or> b = Fin 0 then NaN else if fpos a = fpos b then PInf else NInf)"

fun fdiv :: "f64 \<Rightarrow> f64 \<Rightarrow> f64" where
  "fdiv (Fin x) (Fin y) =
     (if y = 0 then (if x = 0 then NaN else if 0 < x then PInf else NInf) else Fin (x / y))"
| "fdiv NaN b = NaN"
| "fdiv a NaN = NaN"
| "fdiv (Fin x) b = Fin 0"
| "fdiv a (Fin y) = (if fpos a = (0 \<le> y) then PInf else NInf)"
| "fdiv a b = NaN"

fun fsqrt :: "f64 \<Rightarrow> f64" where
  "fsqrt (Fin x) = (if x < 0 then NaN else Fin (sqrt x))"
| "fsqrt PInf = PInf"
| "fsqrt NInf = NaN"
| "fsqrt NaN = NaN"

fun flt :: "f64 \<Rightarrow> f64 \<Rightarrow> bool" where
  "flt (Fin x) (Fin y) = (x < y)"
| "flt NaN b = False"
| "flt a NaN = False"
| "flt a NInf = False"
| "flt PInf b = False"
| "flt NInf b = True"
| "flt a PInf = True"

fun fle :: "f64 \<Rightarrow> f64 \<Rightarrow> bool" where
  "fle (Fin x) (Fin y) = (x \<le> y)"
| "fle NaN b = False"
| "fle a NaN = False"
| "fle NInf b = True"
| "fle a PInf = True"
| "fle a NInf = False"
| "fle PInf b = False"

definition fgt :: "f64 \<Rightarrow> f64 \<Rightarrow> bool" where
  "fgt a b = flt b a"

definition fge :: "f64 \<Rightarrow> f64 \<Rightarrow> bool" where
  "fge a b = fle b a"

fun feq :: "f64 \<Rightarrow> f64 \<Rightarrow> bool" where
  "feq (Fin x) (Fin y) = (x = y)"
| "feq NaN b = False"
| "feq a NaN = False"
| "feq a b = (a = b)"

text \<open>
  \<^verbatim>\<open>mgl64.Vec3\<close> is \<^verbatim>\<open>[3]float64\<close>.  The vector operations of that external library
  are the usual component formulas.
\<close>

type_synonym vec3 = "f64 \<times> f64 \<times> f64"

definition vzero :: vec3 where
  "vzero = (Fin 0, Fin 0, Fin 0)"

fun vadd :: "vec3 \<Rightarrow> vec3 \<Rightarrow> vec3" where
  "vadd (a0, a1, a2) (b0, b1, b2) = (fadd a0 b0, fadd a1 b1, fadd a2 b2)"

fun vsub :: "vec3 \<Rightarrow> vec3 \<Rightarrow> vec3" where
  "vsub (a0, a1, a2) (b0, b1, b2) = (fsub a0 b0, fsub a1 b1, fsub a2 b2)"

fun vmul :: "vec3 \<Rightarrow> f64 \<Rightarrow> vec3" where
  "vmul (a0, a1, a2) c = (fmul a0 c, fmul a1 c, fmul a2 c)"

fun vdot :: "vec3 \<Rightarrow> vec3 \<Rightarrow> f64" where
  "vdot (a0, a1, a2) (b0, b1, b2) = fadd (fadd (fmul a0 b0) (fmul a1 b1)) (fmul a2 b2)"

fun vcross :: "vec3 \<Rightarrow> vec3 \<Rightarrow> vec3" where
  "vcross (a0, a1, a2) (b0, b1, b2) =
     (fsub (fmul a1 b2) (fmul a2 b1), fsub (fmul a2 b0) (fmul a0 b2), fsub (fmul a0 b1) (fmul a1 b0))"

fun vlensqr :: "vec3 \<Rightarrow> f64" where
  "vlensqr (a0, a1, a2) = fadd (fadd (fmul a0 a0) (fmul a1 a1)) (fmul a2 a2)"

definition vlen :: "vec3 \<Rightarrow> f64" where
  "vlen a = fsqrt (vlensqr a)"

text \<open>Vectors all of whose components are finite numbers.\<close>

fun vfinite :: "vec3 \<Rightarrow> bool" where
  "vfinite (Fin x, Fin y, Fin z) = True"
| "vfinite a = False"

definition finiteHull :: "vec3 list \<Rightarrow> bool" where
  "finiteHull convex = list_all vfinite convex"


section \<open>Simplex vertices and the support oracle (vertex.go)\<close>

datatype error = IndexOutOfRange | MustNotComeHere

record vertex =
  indices :: "nat \<times> nat"
  coordinate :: vec3
  barycentricCoordinate :: f64
  isVisited :: bool

text \<open>
  The loop of \<^verbatim>\<open>getIndexOfMaxDotWithDirection\<close>: \<open>i\<close> is the position of the next
  element, \<open>furthestIndex\<close> and \<open>maxS\<close> are the loop variables of the source.
\<close>

fun maxDotLoop :: "vec3 list \<Rightarrow> vec3 \<Rightarrow> nat \<Rightarrow> nat \<Rightarrow> f64 \<Rightarrow> nat" where
  "maxDotLoop [] direction i furthestIndex maxS = furthestIndex"
| "maxDotLoop (v # vs) direction i furthestIndex maxS =
     (let s = vdot v direction in
      if fgt s maxS then maxDotLoop vs direction (Suc i) i s
      else maxDotLoop vs direction (Suc i) furthestIndex maxS)"

definition getIndexOfMaxDotWithDirection :: "vec3 list \<Rightarrow> vec3 \<Rightarrow> nat" where
  "getIndexOfMaxDotWithDirection convex direction = maxDotLoop convex direction 0 0 NInf"

text \<open>Indexing an empty hull panics in Go; the model returns the error.\<close>

definition newVertex :: "vec3 list \<times> vec3 list \<Rightarrow> vec3 \<Rightarrow> error + vertex" where
  "newVertex convexes direction =
     (let closestIndex0 = getIndexOfMaxDotWithDirection (fst convexes) direction;
          closestIndex1 = getIndexOfMaxDotWithDirection (snd convexes) (vmul direction (Fin (- 1)))
      in if closestIndex0 < length (fst convexes) \<and> closestIndex1 < length (snd convexes)
         then Inr \<lparr> indices = (closestIndex0, closestIndex1),
                    coordinate = vsub (snd convexes ! closestIndex1) (fst convexes ! closestIndex0),
                    barycentricCoordinate = Fin 0,
                    isVisited = False \<rparr>
         else Inl IndexOutOfRange)"

section \<open>The measurement state and the GJK driver\<close>

record Measure =
  ConvexHulls :: "vec3 list \<times> vec3 list"
  Distance :: f64
  Direction :: vec3
  Points :: "vec3 \<times> vec3"
  Ons :: "nat set \<times> nat set"
  simplex :: "vertex list"

subsection \<open>Cycle detector\<close>

definition indexAt :: "nat \<times> nat \<Rightarrow> nat \<Rightarrow> nat" where
  "indexAt p j = (if j = 0 then fst p else snd p)"

definition unvisited :: "vertex list \<Rightarrow> nat set" where
  "unvisited s = {k. k < length s - 1 \<and> \<not> isVisited (s ! k)}"

text \<open>
  \<^verbatim>\<open>simplexHasCyclic(i, j)\<close> with its loop variable \<open>newI\<close> made a parameter.  The marks
  \<^verbatim>\<open>isVisited\<close> are set before the recursive call and cleared on every way out, so the
  caller's simplex is unchanged and only the verdict is returned.
\<close>

function simplexHasCyclicFrom :: "vertex list \<Rightarrow> nat \<Rightarrow> nat \<Rightarrow> nat \<Rightarrow> bool" where
  "simplexHasCyclicFrom s i j newI =
     (if newI < length s - 1 then
        if isVisited (s ! newI) then simplexHasCyclicFrom s i j (Suc newI)
        else if indexAt (indices (s ! newI)) j \<noteq> indexAt (indices (s ! i)) j
          then simplexHasCyclicFrom s i j (Suc newI)
        else if indexAt (indices (s ! (length s - 1))) ((j + 1) mod 2)
                  = indexAt (indices (s ! newI)) ((j + 1) mod 2) then True
        else if simplexHasCyclicFrom (s[newI := (s ! newI)\<lparr>isVisited := True\<rparr>]) newI ((j + 1) mod 2) 0
          then True
        else simplexHasCyclicFrom s i j (Suc newI)
      else False)"
  by pat_completeness auto

lemma unvisited_mark:
  assumes "newI < length s - 1" and "\<not> isVisited (s ! newI)"
  shows "card (unvisited (s[newI := (s ! newI)\<lparr>isVisited := True\<rparr>])) < card (unvisited s)"
proof -
  have fin: "finite (unvisited s)"
    by (simp add: unvisited_def)
  have sub: "unvisited (s[newI := (s ! newI)\<lparr>isVisited := True\<rparr>]) \<subseteq> unvisited s - {newI}"
    using assms by (auto simp: unvisited_def nth_list_update)
  have "newI \<in> unvisited s"
    using assms by (simp add: unvisited_def)
  with fin have "card (unvisited s - {newI}) < card (unvisited s)"
    by (rule card_Diff1_less)
  moreover have "card (unvisited (s[newI := (s ! newI)\<lparr>isVisited := True\<rparr>])) \<le> card (unvisited s - {newI})"
    using sub fin by (simp add: card_mono)
  ultimately show ?thesis by simp
qed

termination simplexHasCyclicFrom
  by (relation "measures [\<lambda>(s, i, j, newI). card (unvisited s), \<lambda>(s, i, j, newI). length s - newI]")
     (auto simp: unvisited_mark)

declare simplexHasCyclicFrom.simps [simp del]

definition simplexHasCyclic :: "vertex list \<Rightarrow> nat \<Rightarrow> nat \<Rightarrow> bool" where
  "simplexHasCyclic s i j = simplexHasCyclicFrom s i j 0"

subsection \<open>Simplex reducer\<close>

definition setBC :: "vertex \<Rightarrow> f64 \<Rightarrow> vertex" where
  "setBC v x = v\<lparr>barycentricCoordinate := x\<rparr>"

definition isZeroVec :: "vec3 \<Rightarrow> bool" where
  "isZeroVec n = (feq (fst n) (Fin 0) \<and> feq (fst (snd n)) (Fin 0) \<and> feq (snd (snd n)) (Fin 0))"

text \<open>
  \<^verbatim>\<open>updateSimplex\<close> on the simplex itself: the result is the flag \<^verbatim>\<open>isDegenerated\<close>
  and the simplex after the call.  A simplex of a size other than 1 to 4 reaches
  \<^verbatim>\<open>log.Panic\<close>.
\<close>

fun reduceSimplex :: "vertex list \<Rightarrow> error + bool \<times> vertex list" where
  "reduceSimplex [va] = Inr (False, [setBC va (Fin 1)])"
| "reduceSimplex [va, vb] =
     (let a = coordinate va; b = coordinate vb;
          ab = vsub b a;
          u = vdot b ab
      in if fle u (Fin 0) then Inr (False, [setBC vb (Fin 1)])
         else let v = fneg (vdot a ab)
              in Inr (False, [setBC va u, setBC vb v]))"
| "reduceSimplex [va, vb, vc] =
     (let a = coordinate va; b = coordinate vb; c = coordinate vc;
          ab = vsub b a; ac = vsub c a; bc = vsub c b;
          uBC = vdot c bc; uAC = vdot c ac
      in if fle uBC (Fin 0) \<and> fle uAC (Fin 0) then Inr (False, [setBC vc (Fin 1)])
         else let vBC = fneg (vdot b bc);
                  n = vcross ab ac
         in if isZeroVec n then Inr (True, [va, vb, vc])
         else let n1 = vcross b c;
                  uABC = vdot n1 n
         in if fle uABC (Fin 0) \<and> fgt uBC (Fin 0) \<and> fgt vBC (Fin 0)
            then Inr (False, [setBC vb uBC, setBC vc vBC])
         else let vAC = fneg (vdot a ac);
                  n2 = vcross c a;
                  vABC = vdot n2 n
         in if fle vABC (Fin 0) \<and> fgt uAC (Fin 0) \<and> fgt vAC (Fin 0)
            then Inr (False, [setBC va uAC, setBC vc vAC])
         else let n3 = vcross a b;
                  wABC = vdot n3 n
         in Inr (False, [setBC va uABC, setBC vb vABC, setBC vc wABC]))"
| "reduceSimplex [va, vb, vc, vd] =
     (let a = coordinate va; b = coordinate vb; c = coordinate vc; d = coordinate vd;
          ad = vsub d a; bd = vsub d b; cd = vsub d c;
          uBD = vdot d bd; uCD = vdot d cd; uAD = vdot d ad
      in if fle uBD (Fin 0) \<and> fle uCD (Fin 0) \<and> fle uAD (Fin 0)
         then Inr (False, [setBC vd (Fin 1)])
         else let ab = vsub b a; ac = vsub c a; bc = vsub c b;
                  vBD = fneg (vdot b bd); vCD = fneg (vdot c cd); vAD = fneg (vdot a ad);
                  nADB = vcross ad ab;
                  uADB = vdot (vcross d b) nADB;
                  vADB = vdot (vcross b a) nADB;
                  wADB = vdot (vcross a d) nADB;
                  nACD = vcross ac ad;
                  uACD = vdot (vcross c d) nACD;
                  vACD = vdot (vcross d a) nACD;
                  wACD = vdot (vcross a c) nACD;
                  nCBD = vcross (vmul bc (Fin (- 1))) cd;
                  uCBD = vdot (vcross b d) nCBD;
                  vCBD = vdot (vcross d c) nCBD;
                  wCBD = vdot (vcross c b) nCBD
         in if fle vCBD (Fin 0) \<and> fle uACD (Fin 0) \<and> fgt uCD (Fin 0) \<and> fgt vCD (Fin 0)
            then Inr (False, [setBC vc uCD, setBC vd vCD])
         else if fle vACD (Fin 0) \<and> fle wADB (Fin 0) \<and> fgt uAD (Fin 0) \<and> fgt vAD (Fin 0)
            then Inr (False, [setBC va uAD, setBC vd vAD])
         else if fle uCBD (Fin 0) \<and> fle uADB (Fin 0) \<and> fgt uBD (Fin 0) \<and> fgt vBD (Fin 0)
            then Inr (False, [setBC vb uBD, setBC vd vBD])
         else let volume = fneg (vdot (vcross bc ab) bd)
         in if feq volume (Fin 0) then Inr (True, [va, vb, vc, vd])
         else let volumeInverse = fdiv (Fin 1) volume;
                  uABCD = fmul (vdot (vcross c d) b) volumeInverse
         in if feq uABCD (Fin 0) then Inr (True, [va, vb, vc, vd])
         else let vABCD = fmul (vdot (vcross c a) d) volumeInverse
         in if feq vABCD (Fin 0) then Inr (True, [va, vb, vc, vd])
         else let wABCD = fmul (vdot (vcross d a) b) volumeInverse
         in if feq wABCD (Fin 0) then Inr (True, [va, vb, vc, vd])
         else let xABCD = fmul (vdot (vcross b a) c) volumeInverse
         in if feq xABCD (Fin 0) then Inr (True, [va, vb, vc, vd])
         else if flt uABCD (Fin 0) \<and> fgt uCBD (Fin 0) \<and> fgt vCBD (Fin 0) \<and> fgt wCBD (Fin 0)
            then Inr (False, [setBC vb vCBD, setBC vc uCBD, setBC vd wCBD])
         else if flt vABCD (Fin 0) \<and> fgt uACD (Fin 0) \<and> fgt vACD (Fin 0) \<and> fgt wACD (Fin 0)
            then Inr (False, [setBC va uACD, setBC vc vACD, setBC vd wACD])
         else if flt wABCD (Fin 0) \<and> fgt uADB (Fin 0) \<and> fgt vADB (Fin 0) \<and> fgt wADB (Fin 0)
            then Inr (False, [setBC va uADB, setBC vb wADB, setBC vd vADB])
         else Inr (False, [setBC va uABCD, setBC vb vABCD, setBC vc wABCD, setBC vd xABCD]))"
| "reduceSimplex s = Inl MustNotComeHere"

definition updateSimplex :: "Measure \<Rightarrow> error + bool \<times> Measure" where
  "updateSimplex m =
     (case reduceSimplex (simplex m) of
        Inl e \<Rightarrow> Inl e
      | Inr (isDegenerated, s) \<Rightarrow> Inr (isDegenerated, m\<lparr>simplex := s\<rparr>))"

subsection \<open>Direction, distance and the other outputs\<close>

text \<open>The direction \<^verbatim>\<open>updateDirection\<close> computes; \<open>old\<close> is kept for sizes outside 1 to 4.\<close>

fun simplexDirection :: "vertex list \<Rightarrow> vec3 \<Rightarrow> vec3" where
  "simplexDirection [va] old = coordinate va"
| "simplexDirection [va, vb] old =
     (let difference = vsub (coordinate va) (coordinate vb);
          x = fdiv (vdot (coordinate va) difference) (vlensqr difference)
      in vsub (coordinate va) (vmul difference x))"
| "simplexDirection [va, vb, vc] old =
     (let ba = vsub (coordinate va) (coordinate vb);
          ca = vsub (coordinate va) (coordinate vc);
          n = vcross ba ca;
          scale = fdiv (vdot n (coordinate va)) (vlensqr n)
      in vmul n scale)"
| "simplexDirection [va, vb, vc, vd] old = vzero"
| "simplexDirection s old = old"

definition updateDirection :: "Measure \<Rightarrow> Measure" where
  "updateDirection m = m\<lparr>Direction := simplexDirection (simplex m) (Direction m)\<rparr>"

definition updateDistance :: "Measure \<Rightarrow> Measure" where
  "updateDistance m = m\<lparr>Distance := vlen (Direction m)\<rparr>"

definition validIndices :: "vec3 list \<times> vec3 list \<Rightarrow> vertex \<Rightarrow> bool" where
  "validIndices convexes v =
     (fst (indices v) < length (fst convexes) \<and> snd (indices v) < length (snd convexes))"

definition updateTheOthers :: "Measure \<Rightarrow> error + Measure" where
  "updateTheOthers m =
     (let denominator = fdiv (Fin 1)
            (foldl (\<lambda>acc v. fadd acc (barycentricCoordinate v)) (Fin 0) (simplex m))
      in if list_all (validIndices (ConvexHulls m)) (simplex m)
         then Inr (m\<lparr>
           Points :=
             (foldl (\<lambda>p v. vadd p (vmul (fst (ConvexHulls m) ! fst (indices v))
                                          (fmul denominator (barycentricCoordinate v))))
                    vzero (simplex m),
              foldl (\<lambda>p v. vadd p (vmul (snd (ConvexHulls m) ! snd (indices v))
                                          (fmul denominator (barycentricCoordinate v))))
                    vzero (simplex m)),
           Ons := (set (map (\<lambda>v. fst (indices v)) (simplex m)),
                   set (map (\<lambda>v. snd (indices v)) (simplex m)))\<rparr>)
         else Inl IndexOutOfRange)"

subsection \<open>The GJK loop\<close>

text \<open>
  The \<^verbatim>\<open>for len(measure.simplex) < 4\<close> loop of \<^verbatim>\<open>gjk\<close>.  The result \<open>None\<close> stands
  for a loop that never ends, \<open>Some (Inl e)\<close> for a panic.
\<close>

partial_function (option) gjkLoop :: "Measure \<Rightarrow> (error + Measure) option" where
  "gjkLoop m =
     (if length (simplex m) < 4 then
        (case newVertex (ConvexHulls m) (Direction m) of
           Inl e \<Rightarrow> Some (Inl e)
         | Inr v \<Rightarrow>
             if simplexHasCyclic (simplex m @ [v]) (length (simplex m @ [v]) - 1) 0
             then Some (Inr m)
             else (case updateSimplex (m\<lparr>simplex := simplex m @ [v]\<rparr>) of
                     Inl e \<Rightarrow> Some (Inl e)
                   | Inr (isDegenerated, m1) \<Rightarrow>
                       if isDegenerated then Some (Inr (updateDirection m1))
                       else if fge (Distance (updateDistance (updateDirection m1))) (Distance m1)
                         then Some (Inr (updateDistance (updateDirection m1)))
                         else gjkLoop (updateDistance (updateDirection m1))))
      else Some (Inr m))"

definition gjk :: "Measure \<Rightarrow> (error + Measure) option" where
  "gjk m =
     (case gjkLoop (m\<lparr>simplex := [], Distance := PInf\<rparr>) of
        None \<Rightarrow> None
      | Some (Inl e) \<Rightarrow> Some (Inl e)
      | Some (Inr m1) \<Rightarrow> Some (updateTheOthers m1))"

definition shortCircuit :: "Measure \<Rightarrow> Measure" where
  "shortCircuit m = m\<lparr>Distance := Fin 0, Points := (vzero, vzero), Ons := ({}, {})\<rparr>"

definition MeasureNonnegativeDistance :: "Measure \<Rightarrow> (error + Measure) option" where
  "MeasureNonnegativeDistance m =
     (if fst (ConvexHulls m) = [] \<or> snd (ConvexHulls m) = [] then Some (Inr (shortCircuit m))
      else gjk m)"

section \<open>Faces and the EPA driver\<close>

text \<open>Sequencing of computations that may panic or may fail to return.\<close>

definition rbind :: "(error + 'a) option \<Rightarrow> ('a \<Rightarrow> (error + 'b) option) \<Rightarrow> (error + 'b) option" where
  "rbind r f = (case r of None \<Rightarrow> None | Some (Inl e) \<Rightarrow> Some (Inl e) | Some (Inr x) \<Rightarrow> f x)"

type_synonym edge = "nat \<times> nat"

type_synonym edgeOrder = "edge list \<Rightarrow> edge list"

record face =
  face_indices :: "nat \<times> nat \<times> nat"
  face_measure :: Measure

definition zeroMeasure :: "vec3 list \<times> vec3 list \<Rightarrow> Measure" where
  "zeroMeasure convexes =
     \<lparr> ConvexHulls = convexes, Distance = Fin 0, Direction = vzero,
       Points = (vzero, vzero), Ons = ({}, {}), simplex = [] \<rparr>"

text \<open>
  \<^verbatim>\<open>newFace\<close>: the face owns a measurement between the origin and the triangle, and runs
  GJK on it.
\<close>

definition newFace :: "vertex list \<Rightarrow> nat \<times> nat \<times> nat \<Rightarrow> (error + face) option" where
  "newFace s ixs =
     (case ixs of (i0, i1, i2) \<Rightarrow>
        if i0 < length s \<and> i1 < length s \<and> i2 < length s
        then rbind (gjk (zeroMeasure ([vzero], [coordinate (s ! i0), coordinate (s ! i1), coordinate (s ! i2)])))
                   (\<lambda>fm. Some (Inr \<lparr> face_indices = ixs, face_measure = fm \<rparr>))
        else Some (Inl IndexOutOfRange))"

definition getNormal :: "face \<Rightarrow> vertex list \<Rightarrow> error + vec3" where
  "getNormal f s =
     (case face_indices f of (i0, i1, i2) \<Rightarrow>
        if i0 < length s \<and> i1 < length s \<and> i2 < length s
        then Inr (vcross (vsub (coordinate (s ! i1)) (coordinate (s ! i0)))
                         (vsub (coordinate (s ! i2)) (coordinate (s ! i0))))
        else Inl IndexOutOfRange)"

text \<open>The orientation step of \<^verbatim>\<open>epa\<close>: swap the last two indices of an inward face.\<close>

definition orientFace :: "vertex list \<Rightarrow> face \<Rightarrow> error + face" where
  "orientFace s f =
     (case getNormal f s of
        Inl e \<Rightarrow> Inl e
      | Inr n \<Rightarrow>
          Inr (if flt (vdot n (Direction (face_measure f))) (Fin 0)
               then (case face_indices f of (i0, i1, i2) \<Rightarrow> f\<lparr>face_indices := (i0, i2, i1)\<rparr>)
               else f))"

fun buildFaces :: "vertex list \<Rightarrow> (nat \<times> nat \<times> nat) list \<Rightarrow> (error + face list) option" where
  "buildFaces s [] = Some (Inr [])"
| "buildFaces s (ixs # rest) =
     rbind (newFace s ixs) (\<lambda>f.
       case orientFace s f of
         Inl e \<Rightarrow> Some (Inl e)
       | Inr f1 \<Rightarrow> rbind (buildFaces s rest) (\<lambda>fs. Some (Inr (f1 # fs))))"

text \<open>
  \<^verbatim>\<open>sort.Slice\<close> with \<^verbatim>\<open>faces[i].measure.Distance > faces[j].measure.Distance\<close>.  For
  the at most four faces sorted here the Go library runs its insertion sort, which moves
  each element towards the front while it is greater than its predecessor.  \<open>sortInsert\<close>
  works on the reversed prefix.
\<close>

fun sortInsert :: "face \<Rightarrow> face list \<Rightarrow> face list" where
  "sortInsert x [] = [x]"
| "sortInsert x (p # ps) =
     (if fgt (Distance (face_measure x)) (Distance (face_measure p))
      then p # sortInsert x ps else x # p # ps)"

definition sortFaces :: "face list \<Rightarrow> face list" where
  "sortFaces fs = rev (foldl (\<lambda>acc x. sortInsert x acc) [] fs)"

subsection \<open>Polytope reconstruction\<close>

text \<open>
  \<^verbatim>\<open>reconstructEdges\<close> is a Go map used as a set of directed edges; it is modelled as a
  duplicate-free list in insertion order.
\<close>

definition toggleEdge :: "edge \<Rightarrow> edge list \<Rightarrow> edge list" where
  "toggleEdge e edges =
     (if e \<in> set edges then removeAll e edges
      else if (snd e, fst e) \<in> set edges then edges
      else edges @ [(snd e, fst e)])"

definition faceEdges :: "nat \<times> nat \<times> nat \<Rightarrow> edge list" where
  "faceEdges ixs = (case ixs of (i0, i1, i2) \<Rightarrow> [(i0, i1), (i1, i2), (i2, i0)])"

definition belowFace :: "vertex list \<Rightarrow> face \<Rightarrow> error + bool" where
  "belowFace s f =
     (case getNormal f s of
        Inl e \<Rightarrow> Inl e
      | Inr n \<Rightarrow>
          if s = [] then Inl IndexOutOfRange
          else Inr (fle (vdot n (vsub (coordinate (last s))
                                      (coordinate (s ! fst (face_indices f))))) (Fin 0)))"

text \<open>
  The first loop of \<^verbatim>\<open>reconstruct\<close> visits the faces from the last to the first; the
  argument of \<open>removeVisible\<close> is the reversed face list, and so is its result.
\<close>

fun removeVisible :: "vertex list \<Rightarrow> face list \<Rightarrow> edge list \<Rightarrow> error + face list \<times> edge list" where
  "removeVisible s [] edges = Inr ([], edges)"
| "removeVisible s (f # fs) edges =
     (case belowFace s f of
        Inl e \<Rightarrow> Inl e
      | Inr below \<Rightarrow>
          if below
          then (case removeVisible s fs edges of
                  Inl e \<Rightarrow> Inl e
                | Inr (kept, edges1) \<Rightarrow> Inr (f # kept, edges1))
          else removeVisible s fs (foldl (\<lambda>es e. toggleEdge e es) edges (faceEdges (face_indices f))))"

fun insertFaceRev :: "face \<Rightarrow> face list \<Rightarrow> face list" where
  "insertFaceRev nf [] = [nf]"
| "insertFaceRev nf (f # fs) =
     (if fle (Distance (face_measure nf)) (Distance (face_measure f))
      then nf # f # fs else f # insertFaceRev nf fs)"

definition insertFace :: "face \<Rightarrow> face list \<Rightarrow> face list" where
  "insertFace nf faces = rev (insertFaceRev nf (rev faces))"

fun addFaces :: "vertex list \<Rightarrow> edge list \<Rightarrow> face list \<Rightarrow> (error + face list) option" where
  "addFaces s [] faces = Some (Inr faces)"
| "addFaces s (e # es) faces =
     rbind (newFace s (snd e, fst e, length s - 1))
           (\<lambda>nf. addFaces s es (insertFace nf faces))"

text \<open>
  Go iterates over a map in an order chosen by the runtime.  The order in which the
  silhouette edges are visited is the parameter \<open>ord\<close>, applied to the edges in insertion
  order.
\<close>

definition reconstruct :: "edgeOrder \<Rightarrow> vertex list \<Rightarrow> face list \<Rightarrow> (error + face list) option" where
  "reconstruct ord s faces =
     (case removeVisible s (rev faces) [] of
        Inl e \<Rightarrow> Some (Inl e)
      | Inr (keptRev, edges) \<Rightarrow> addFaces s (ord edges) (rev keptRev))"

subsection \<open>The EPA loop\<close>

partial_function (option) epaLoop ::
  "edgeOrder \<Rightarrow> vec3 list \<times> vec3 list \<Rightarrow> vertex list \<Rightarrow> face list
     \<Rightarrow> (error + vertex list \<times> face list) option" where
  "epaLoop ord convexes s faces =
     (if faces = [] then Some (Inl IndexOutOfRange)
      else case newVertex convexes (vmul (Direction (face_measure (last faces))) (Fin (- 1))) of
             Inl e \<Rightarrow> Some (Inl e)
           | Inr nv \<Rightarrow>
               if list_ex (\<lambda>v. indices nv = indices v) s then Some (Inr (s, faces))
               else (case reconstruct ord (s @ [nv]) faces of
                       None \<Rightarrow> None
                     | Some (Inl e) \<Rightarrow> Some (Inl e)
                     | Some (Inr faces1) \<Rightarrow> epaLoop ord convexes (s @ [nv]) faces1))"

definition initialFaces :: "vertex list \<Rightarrow> (error + face list) option" where
  "initialFaces s =
     (if length s = 3 then buildFaces s [(0, 1, 2)]
      else if length s = 4 then buildFaces s [(1, 2, 3), (0, 2, 3), (0, 1, 3), (0, 1, 2)]
      else Some (Inl MustNotComeHere))"

definition epaExtract :: "Measure \<Rightarrow> vertex list \<times> face list \<Rightarrow> (error + Measure) option" where
  "epaExtract m r =
     (case r of (s, faces) \<Rightarrow>
        if faces = [] then Some (Inl IndexOutOfRange)
        else (case face_indices (last faces) of (i0, i1, i2) \<Rightarrow>
          if i0 < length s \<and> i1 < length s \<and> i2 < length s
          then (case updateSimplex (m\<lparr>simplex := [s ! i0, s ! i1, s ! i2]\<rparr>) of
                  Inl e \<Rightarrow> Some (Inl e)
                | Inr (isDegenerated, m1) \<Rightarrow>
                    (case updateTheOthers (updateDistance (updateDirection m1)) of
                       Inl e \<Rightarrow> Some (Inl e)
                     | Inr m2 \<Rightarrow> Some (Inr (m2\<lparr>Distance := fmul (Distance m2) (Fin (- 1))\<rparr>))))
          else Some (Inl IndexOutOfRange)))"

definition epa :: "edgeOrder \<Rightarrow> Measure \<Rightarrow> (error + Measure) option" where
  "epa ord m =
     rbind (initialFaces (simplex m)) (\<lambda>faces.
       rbind (epaLoop ord (ConvexHulls m) (simplex m) (sortFaces faces)) (epaExtract m))"

definition MeasureDistance :: "edgeOrder \<Rightarrow> Measure \<Rightarrow> (error + Measure) option" where
  "MeasureDistance ord m =
     (if fst (ConvexHulls m) = [] \<or> snd (ConvexHulls m) = [] then Some (Inr (shortCircuit m))
      else rbind (gjk m) (\<lambda>m1. if length (simplex m1) < 4 then Some (Inr m1) else epa ord m1))"

section \<open>Properties of the support oracle and of the simplex vertex\<close>

















section \<open>Properties of the simplex reducer\<close>






lemma coordinate_setBC [simp]: "coordinate (setBC v x) = coordinate v"
  by (simp add: setBC_def)

lemma indices_setBC [simp]: "indices (setBC v x) = indices v"
  by (simp add: setBC_def)






























text \<open>
  The Minkowski vertex with index pair \<open>(0, j)\<close> at a given finite coordinate: the vertex of
  the origin as hull 0 and of a hull 1 whose point \<open>j\<close> is \<open>(x, y, z)\<close>.
\<close>

definition vertexAt :: "nat \<Rightarrow> real \<Rightarrow> real \<Rightarrow> real \<Rightarrow> vertex" where
  "vertexAt j x y z =
     \<lparr> indices = (0, j), coordinate = (Fin x, Fin y, Fin z),
       barycentricCoordinate = Fin 0, isVisited = False \<rparr>"

text \<open>
  Claim C7, as the code has it.  For a 3-vertex simplex whose coordinates satisfy
  \<open>(B - A) \<times> (C - A) = 0\<close> exactly, the reducer reports degeneracy and leaves the simplex as
  it is, unless both \<open>C \<cdot> (C - B) \<le> 0\<close> and \<open>C \<cdot> (C - A) \<le> 0\<close>: that test for the vertex
  region of \<open>C\<close> comes first, and then the simplex collapses to \<open>C\<close> with weight 1 and no
  degeneracy is reported.
\<close>

theorem collinear_triple_reduction:
  assumes "isZeroVec (vcross (vsub (coordinate vb) (coordinate va)) (vsub (coordinate vc) (coordinate va)))"
  shows "reduceSimplex [va, vb, vc] =
           (if fle (vdot (coordinate vc) (vsub (coordinate vc) (coordinate vb))) (Fin 0)
               \<and> fle (vdot (coordinate vc) (vsub (coordinate vc) (coordinate va))) (Fin 0)
            then Inr (False, [setBC vc (Fin 1)])
            else Inr (True, [va, vb, vc]))"
  using assms by (simp add: Let_def)

theorem collinear_triple_reduction_witness:
  "isZeroVec (vcross (vsub (coordinate (vertexAt 1 2 0 0)) (coordinate (vertexAt 0 1 0 0)))
                     (vsub (coordinate (vertexAt 2 3 0 0)) (coordinate (vertexAt 0 1 0 0))))
   \<and> reduceSimplex [vertexAt 0 1 0 0, vertexAt 1 2 0 0, vertexAt 2 3 0 0]
       = Inr (True, [vertexAt 0 1 0 0, vertexAt 1 2 0 0, vertexAt 2 3 0 0])"
proof -
  have h: "isZeroVec (vcross (vsub (coordinate (vertexAt 1 2 0 0)) (coordinate (vertexAt 0 1 0 0)))
                             (vsub (coordinate (vertexAt 2 3 0 0)) (coordinate (vertexAt 0 1 0 0))))"
    by (simp add: vertexAt_def isZeroVec_def fsub_def)
  show ?thesis
    using h collinear_triple_reduction [OF h] by (simp add: vertexAt_def fsub_def)
qed

text \<open>
  The claim as stated fails for the collinear triple \<open>A = (3, 0, 0)\<close>, \<open>B = (2, 0, 0)\<close>,
  \<open>C = (1, 0, 0)\<close>: the reducer answers "not degenerate" and keeps \<open>C\<close> alone.
\<close>

theorem collinear_triple_not_reported:
  "isZeroVec (vcross (vsub (coordinate (vertexAt 1 2 0 0)) (coordinate (vertexAt 0 3 0 0)))
                     (vsub (coordinate (vertexAt 2 1 0 0)) (coordinate (vertexAt 0 3 0 0))))
   \<and> reduceSimplex [vertexAt 0 3 0 0, vertexAt 1 2 0 0, vertexAt 2 1 0 0]
       = Inr (False, [setBC (vertexAt 2 1 0 0) (Fin 1)])"
  by (simp add: vertexAt_def isZeroVec_def fsub_def Let_def)

section \<open>The GJK loop returns\<close>


definition fromHulls :: "vec3 list \<times> vec3 list \<Rightarrow> vertex \<Rightarrow> bool" where
  "fromHulls H v = (validIndices H v \<and> coordinate v = vsub (snd H ! snd (indices v)) (fst H ! fst (indices v)))"





















lemma fromHulls_setBC [simp]: "fromHulls H (setBC v x) = fromHulls H v"
  by (simp add: fromHulls_def validIndices_def)








section \<open>The EPA loop returns\<close>











section \<open>Properties of the facade\<close>

text \<open>
  Throughout, a hull is a list of points of Euclidean space: where a statement needs it,
  the hypothesis \<open>finiteHull\<close> says that the coordinates are finite numbers.
\<close>

lemmas eval_defs =
  MeasureNonnegativeDistance_def MeasureDistance_def shortCircuit_def gjk_def newVertex_def
  getIndexOfMaxDotWithDirection_def Let_def fgt_def fge_def fsub_def vzero_def
  updateSimplex_def updateDirection_def updateDistance_def updateTheOthers_def
  simplexHasCyclic_def simplexHasCyclicFrom.simps setBC_def isZeroVec_def validIndices_def
  indexAt_def vlen_def zeroMeasure_def finiteHull_def

lemmas epa_eval_defs =
  epa_def rbind_def initialFaces_def newFace_def orientFace_def getNormal_def sortFaces_def
  reconstruct_def belowFace_def toggleEdge_def faceEdges_def insertFace_def epaExtract_def

text \<open>
  Claim C3.  When at least one of the two hulls is the empty sequence, both
  \<^verbatim>\<open>MeasureDistance\<close> and \<^verbatim>\<open>MeasureNonnegativeDistance\<close> return normally (no panic, no
  divergence) without running GJK or EPA: the scratch simplex, which GJK would reset, is the
  one the call started with; \<^verbatim>\<open>Distance\<close> is 0 and both \<^verbatim>\<open>Ons\<close> sets are empty.
\<close>

theorem empty_hull_short_circuits:
  assumes "fst (ConvexHulls m) = [] \<or> snd (ConvexHulls m) = []"
  shows "\<exists>m1. MeasureDistance ord m = Some (Inr m1)
             \<and> MeasureNonnegativeDistance m = Some (Inr m1)
             \<and> Distance m1 = Fin 0 \<and> Ons m1 = ({}, {}) \<and> simplex m1 = simplex m"
  using assms by (simp add: MeasureDistance_def MeasureNonnegativeDistance_def shortCircuit_def)

theorem empty_hull_short_circuits_witness:
  "(fst (ConvexHulls (zeroMeasure ([], [vzero]))) = [] \<or> snd (ConvexHulls (zeroMeasure ([], [vzero]))) = [])
   \<and> (\<exists>m1. MeasureDistance id (zeroMeasure ([], [vzero])) = Some (Inr m1)
           \<and> MeasureNonnegativeDistance (zeroMeasure ([], [vzero])) = Some (Inr m1)
           \<and> Distance m1 = Fin 0 \<and> Ons m1 = ({}, {})
           \<and> simplex m1 = simplex (zeroMeasure ([], [vzero])))"
proof -
  have h: "fst (ConvexHulls (zeroMeasure ([], [vzero]))) = [] \<or> snd (ConvexHulls (zeroMeasure ([], [vzero]))) = []"
    by (simp add: zeroMeasure_def)
  show ?thesis
    using h empty_hull_short_circuits [OF h, of id] by blast
qed

text \<open>
  Claim C9.  On the empty-hull path of either entry point the persisted \<^verbatim>\<open>Direction\<close> is
  left as it was, while \<^verbatim>\<open>Distance\<close> becomes 0, both \<^verbatim>\<open>Points\<close> become the zero vector
  and both \<^verbatim>\<open>Ons\<close> sets become empty; the hulls are not touched either.
\<close>

theorem empty_hull_frame:
  assumes "fst (ConvexHulls m) = [] \<or> snd (ConvexHulls m) = []"
  shows "\<exists>m1. MeasureDistance ord m = Some (Inr m1)
             \<and> MeasureNonnegativeDistance m = Some (Inr m1)
             \<and> Direction m1 = Direction m \<and> ConvexHulls m1 = ConvexHulls m
             \<and> Distance m1 = Fin 0 \<and> Points m1 = (vzero, vzero) \<and> Ons m1 = ({}, {})"
  using assms by (simp add: MeasureDistance_def MeasureNonnegativeDistance_def shortCircuit_def)

theorem empty_hull_frame_witness:
  "(fst (ConvexHulls ((zeroMeasure ([vzero], []))\<lparr>Direction := (Fin 1, Fin 2, Fin 3), Distance := Fin 7\<rparr>)) = []
      \<or> snd (ConvexHulls ((zeroMeasure ([vzero], []))\<lparr>Direction := (Fin 1, Fin 2, Fin 3), Distance := Fin 7\<rparr>)) = [])
   \<and> (\<exists>m1. MeasureDistance id ((zeroMeasure ([vzero], []))\<lparr>Direction := (Fin 1, Fin 2, Fin 3), Distance := Fin 7\<rparr>) = Some (Inr m1)
           \<and> MeasureNonnegativeDistance ((zeroMeasure ([vzero], []))\<lparr>Direction := (Fin 1, Fin 2, Fin 3), Distance := Fin 7\<rparr>) = Some (Inr m1)
           \<and> Direction m1 = (Fin 1, Fin 2, Fin 3) \<and> ConvexHulls m1 = ([vzero], [])
           \<and> Distance m1 = Fin 0 \<and> Points m1 = (vzero, vzero) \<and> Ons m1 = ({}, {}))"
proof -
  let ?m = "(zeroMeasure ([vzero], []))\<lparr>Direction := (Fin 1, Fin 2, Fin 3), Distance := Fin 7\<rparr>"
  have h: "fst (ConvexHulls ?m) = [] \<or> snd (ConvexHulls ?m) = []"
    by (simp add: zeroMeasure_def)
  have d: "Direction ?m = (Fin 1, Fin 2, Fin 3)" and c: "ConvexHulls ?m = ([vzero], [])"
    by (simp_all add: zeroMeasure_def)
  show ?thesis
    using h empty_hull_frame [OF h, of id] unfolding d c by blast
qed

text \<open>
  Claim C10.  Whenever GJK's final simplex has fewer than 4 vertices, \<^verbatim>\<open>MeasureDistance\<close>
  and \<^verbatim>\<open>MeasureNonnegativeDistance\<close> started from the same state return the same state,
  hence the same \<^verbatim>\<open>Distance\<close>, \<^verbatim>\<open>Direction\<close>, \<^verbatim>\<open>Points\<close> and \<^verbatim>\<open>Ons\<close>: both run the same
  GJK computation and \<^verbatim>\<open>MeasureDistance\<close> skips EPA.
\<close>

theorem no_enclosure_same_result:
  assumes "gjk m = Some (Inr m1)" and "length (simplex m1) < 4"
  shows "MeasureDistance ord m = MeasureNonnegativeDistance m
         \<and> (fst (ConvexHulls m) \<noteq> [] \<and> snd (ConvexHulls m) \<noteq> [] \<longrightarrow> MeasureDistance ord m = Some (Inr m1))"
  using assms by (simp add: MeasureDistance_def MeasureNonnegativeDistance_def rbind_def)

theorem no_enclosure_same_result_witness:
  "gjk (zeroMeasure ([vzero], [(Fin 1, Fin 0, Fin 0)])) =
     Some (Inr \<lparr> ConvexHulls = ([vzero], [(Fin 1, Fin 0, Fin 0)]),
                 Distance = Fin 1, Direction = (Fin 1, Fin 0, Fin 0),
                 Points = (vzero, (Fin 1, Fin 0, Fin 0)), Ons = ({0}, {0}),
                 simplex = [\<lparr> indices = (0, 0), coordinate = (Fin 1, Fin 0, Fin 0),
                              barycentricCoordinate = Fin 1, isVisited = False \<rparr>] \<rparr>)
   \<and> length [\<lparr> indices = (0, 0), coordinate = (Fin 1, Fin 0, Fin 0),
                   barycentricCoordinate = Fin 1, isVisited = False \<rparr>] < 4
   \<and> MeasureDistance id (zeroMeasure ([vzero], [(Fin 1, Fin 0, Fin 0)]))
       = MeasureNonnegativeDistance (zeroMeasure ([vzero], [(Fin 1, Fin 0, Fin 0)]))
   \<and> MeasureDistance id (zeroMeasure ([vzero], [(Fin 1, Fin 0, Fin 0)])) =
     Some (Inr \<lparr> ConvexHulls = ([vzero], [(Fin 1, Fin 0, Fin 0)]),
                 Distance = Fin 1, Direction = (Fin 1, Fin 0, Fin 0),
                 Points = (vzero, (Fin 1, Fin 0, Fin 0)), Ons = ({0}, {0}),
                 simplex = [\<lparr> indices = (0, 0), coordinate = (Fin 1, Fin 0, Fin 0),
                              barycentricCoordinate = Fin 1, isVisited = False \<rparr>] \<rparr>)"
proof -
  let ?m1 = "\<lparr> ConvexHulls = ([vzero], [(Fin 1, Fin 0, Fin 0)]),
                 Distance = Fin 1, Direction = (Fin 1, Fin 0, Fin 0),
                 Points = (vzero, (Fin 1, Fin 0, Fin 0)), Ons = ({0}, {0}),
                 simplex = [\<lparr> indices = (0, 0), coordinate = (Fin 1, Fin 0, Fin 0),
                              barycentricCoordinate = Fin 1, isVisited = False \<rparr>] \<rparr>"
  have g: "gjk (zeroMeasure ([vzero], [(Fin 1, Fin 0, Fin 0)])) = Some (Inr ?m1)"
    by (simp add: eval_defs gjkLoop.simps)
  have l: "length (simplex ?m1) < 4" by simp
  have ne: "fst (ConvexHulls (zeroMeasure ([vzero], [(Fin 1, Fin 0, Fin 0)]))) \<noteq> []
            \<and> snd (ConvexHulls (zeroMeasure ([vzero], [(Fin 1, Fin 0, Fin 0)]))) \<noteq> []"
    by (simp add: zeroMeasure_def)
  note r = no_enclosure_same_result [OF g l, of id]
  from r have e: "MeasureDistance id (zeroMeasure ([vzero], [(Fin 1, Fin 0, Fin 0)]))
      = MeasureNonnegativeDistance (zeroMeasure ([vzero], [(Fin 1, Fin 0, Fin 0)]))"
    by (rule conjunct1)
  from r ne have d: "MeasureDistance id (zeroMeasure ([vzero], [(Fin 1, Fin 0, Fin 0)]))
      = Some (Inr ?m1)"
    by blast
  from l have l': "length [\<lparr> indices = (0, 0), coordinate = (Fin 1, Fin 0, Fin 0),
                   barycentricCoordinate = Fin 1, isVisited = False \<rparr>] < 4"
    by simp
  show ?thesis
    by (intro conjI g l' e d)
qed







text \<open>
  Claim C1 fails on the code.  On the same two hulls \<^verbatim>\<open>MeasureDistance\<close> returns the negative
  \<^verbatim>\<open>Distance\<close> \<open>-\<surd>(9/50)\<close>, whatever the order in which a map is iterated: GJK stops on the
  degeneracy signal with 4 vertices, so EPA runs.  But the hulls do not overlap: the linear
  form \<open>4x - 3y - 5z\<close> is \<open>-1\<close> on both points of the first hull and at least \<open>2\<close> on the three
  points of the second, so a plane separates them (their distance is \<open>\<surd>(9/50)\<close>).
\<close>

theorem separated_hulls_negative_distance:
  "MeasureDistance ord
     (zeroMeasure ([(Fin 1, Fin 0, Fin 1), (Fin (- 1), Fin (- 1), Fin 0)],
                   [(Fin 0, Fin (- 1), Fin (- 1)), (Fin 1, Fin (- 1), Fin 1), (Fin 0, Fin 1, Fin (- 1))]))
   = Some (Inr \<lparr> ConvexHulls = ([(Fin 1, Fin 0, Fin 1), (Fin (- 1), Fin (- 1), Fin 0)],
                                [(Fin 0, Fin (- 1), Fin (- 1)), (Fin 1, Fin (- 1), Fin 1), (Fin 0, Fin 1, Fin (- 1))]),
                 Distance = Fin (- sqrt (9 / 50)),
                 Direction = (Fin (6 / 25), Fin (- (9 / 50)), Fin (- (3 / 10))),
                 Points = ((Fin (12 / 25), Fin (- (13 / 50)), Fin (37 / 50)),
                           (Fin (18 / 25), Fin (- (11 / 25)), Fin (11 / 25))),
                 Ons = ({0, 1}, {1, 2}),
                 simplex =
                   [\<lparr> indices = (1, 1), coordinate = (Fin 2, Fin 0, Fin 1),
                       barycentricCoordinate = Fin 13, isVisited = False \<rparr>,
                    \<lparr> indices = (0, 1), coordinate = (Fin 0, Fin (- 1), Fin 0),
                       barycentricCoordinate = Fin 23, isVisited = False \<rparr>,
                    \<lparr> indices = (0, 2), coordinate = (Fin (- 1), Fin 1, Fin (- 2)),
                       barycentricCoordinate = Fin 14, isVisited = False \<rparr>] \<rparr>)
   \<and> flt (Fin (- sqrt (9 / 50))) (Fin 0)
   \<and> map (\<lambda>p. vdot p (Fin 4, Fin (- 3), Fin (- 5))) [(Fin 1, Fin 0, Fin 1), (Fin (- 1), Fin (- 1), Fin 0)]
       = [Fin (- 1), Fin (- 1)]
   \<and> map (\<lambda>q. vdot q (Fin 4, Fin (- 3), Fin (- 5)))
          [(Fin 0, Fin (- 1), Fin (- 1)), (Fin 1, Fin (- 1), Fin 1), (Fin 0, Fin 1, Fin (- 1))]
       = [Fin 8, Fin 2, Fin 2]"
  by (simp add: eval_defs gjkLoop.simps epa_eval_defs epaLoop.simps insert_commute numeral_2_eq_2)

text \<open>
  Claim C8 fails on the code.  The segment from \<open>(2, 0, 0)\<close> to \<open>(0, 0, -2)\<close> lies in the plane
  \<open>y = 0\<close>, the triangle \<open>(2, 2, -2)\<close>, \<open>(1, 1, 2)\<close>, \<open>(1, 1, -2)\<close> in \<open>y \<ge> 1\<close>; their distance is
  1.  The first call of either entry point, from the zero direction, returns \<^verbatim>\<open>Distance\<close> 1
  and \<^verbatim>\<open>Direction\<close> \<open>(0, 1, 0)\<close>.  Called again on the state the first call returned, with
  the hulls unchanged, \<^verbatim>\<open>MeasureNonnegativeDistance\<close> returns \<^verbatim>\<open>Distance\<close> \<open>\<surd>(16/11)\<close> and the
  zero \<^verbatim>\<open>Direction\<close>, and \<^verbatim>\<open>MeasureDistance\<close> returns \<^verbatim>\<open>Distance\<close> \<open>-1\<close>: warm-started from
  \<open>(0, 1, 0)\<close>, GJK reaches a 4-vertex simplex of zero volume and stops on the degeneracy
  signal.
\<close>

theorem second_call_differs:
  "MeasureNonnegativeDistance
     (zeroMeasure ([(Fin 2, Fin 0, Fin 0), (Fin 0, Fin 0, Fin (- 2))],
                        [(Fin 2, Fin 2, Fin (- 2)), (Fin 1, Fin 1, Fin 2), (Fin 1, Fin 1, Fin (- 2))]))
   = Some (Inr
       \<lparr> ConvexHulls = ([(Fin 2, Fin 0, Fin 0), (Fin 0, Fin 0, Fin (- 2))],
                        [(Fin 2, Fin 2, Fin (- 2)), (Fin 1, Fin 1, Fin 2), (Fin 1, Fin 1, Fin (- 2))]),
         Distance = Fin 1,
         Direction = (Fin 0, Fin 1, Fin 0),
         Points = ((Fin 1, Fin 0, Fin (- 1)), (Fin 1, Fin 1, Fin (- 1))),
         Ons = ({0, 1}, {1, 2}),
         simplex =
           [\<lparr> indices = (1, 1), coordinate = (Fin 1, Fin 1, Fin 4),
               barycentricCoordinate = Fin 16, isVisited = False \<rparr>,
            \<lparr> indices = (0, 2), coordinate = (Fin (- 1), Fin 1, Fin (- 2)),
               barycentricCoordinate = Fin 32, isVisited = False \<rparr>,
            \<lparr> indices = (1, 2), coordinate = (Fin 1, Fin 1, Fin 0),
               barycentricCoordinate = Fin 16, isVisited = False \<rparr>] \<rparr>)
   \<and> MeasureNonnegativeDistance
       \<lparr> ConvexHulls = ([(Fin 2, Fin 0, Fin 0), (Fin 0, Fin 0, Fin (- 2))],
                        [(Fin 2, Fin 2, Fin (- 2)), (Fin 1, Fin 1, Fin 2), (Fin 1, Fin 1, Fin (- 2))]),
         Distance = Fin 1,
         Direction = (Fin 0, Fin 1, Fin 0),
         Points = ((Fin 1, Fin 0, Fin (- 1)), (Fin 1, Fin 1, Fin (- 1))),
         Ons = ({0, 1}, {1, 2}),
         simplex =
           [\<lparr> indices = (1, 1), coordinate = (Fin 1, Fin 1, Fin 4),
               barycentricCoordinate = Fin 16, isVisited = False \<rparr>,
            \<lparr> indices = (0, 2), coordinate = (Fin (- 1), Fin 1, Fin (- 2)),
               barycentricCoordinate = Fin 32, isVisited = False \<rparr>,
            \<lparr> indices = (1, 2), coordinate = (Fin 1, Fin 1, Fin 0),
               barycentricCoordinate = Fin 16, isVisited = False \<rparr>] \<rparr>
   = Some (Inr
       \<lparr> ConvexHulls = ([(Fin 2, Fin 0, Fin 0), (Fin 0, Fin 0, Fin (- 2))],
                        [(Fin 2, Fin 2, Fin (- 2)), (Fin 1, Fin 1, Fin 2), (Fin 1, Fin 1, Fin (- 2))]),
         Distance = Fin (sqrt (16 / 11)),
         Direction = (Fin 0, Fin 0, Fin 0),
         Points = ((Fin (8 / 11), Fin 0, Fin (- (14 / 11))),
                   (Fin (12 / 11), Fin (12 / 11), Fin (- (10 / 11)))),
         Ons = ({0, 1}, {0, 1, 2}),
         simplex =
           [\<lparr> indices = (0, 1), coordinate = (Fin (- 1), Fin 1, Fin 2),
               barycentricCoordinate = Fin 12, isVisited = False \<rparr>,
            \<lparr> indices = (0, 0), coordinate = (Fin 0, Fin 2, Fin (- 2)),
               barycentricCoordinate = Fin 4, isVisited = False \<rparr>,
            \<lparr> indices = (1, 2), coordinate = (Fin 1, Fin 1, Fin 0),
               barycentricCoordinate = Fin 28, isVisited = False \<rparr>,
            \<lparr> indices = (0, 2), coordinate = (Fin (- 1), Fin 1, Fin (- 2)),
               barycentricCoordinate = Fin 0, isVisited = False \<rparr>] \<rparr>)
   \<and> MeasureDistance ord
     (zeroMeasure ([(Fin 2, Fin 0, Fin 0), (Fin 0, Fin 0, Fin (- 2))],
                        [(Fin 2, Fin 2, Fin (- 2)), (Fin 1, Fin 1, Fin 2), (Fin 1, Fin 1, Fin (- 2))]))
   = Some (Inr
       \<lparr> ConvexHulls = ([(Fin 2, Fin 0, Fin 0), (Fin 0, Fin 0, Fin (- 2))],
                        [(Fin 2, Fin 2, Fin (- 2)), (Fin 1, Fin 1, Fin 2), (Fin 1, Fin 1, Fin (- 2))]),
         Distance = Fin 1,
         Direction = (Fin 0, Fin 1, Fin 0),
         Points = ((Fin 1, Fin 0, Fin (- 1)), (Fin 1, Fin 1, Fin (- 1))),
         Ons = ({0, 1}, {1, 2}),
         simplex =
           [\<lparr> indices = (1, 1), coordinate = (Fin 1, Fin 1, Fin 4),
               barycentricCoordinate = Fin 16, isVisited = False \<rparr>,
            \<lparr> indices = (0, 2), coordinate = (Fin (- 1), Fin 1, Fin (- 2)),
               barycentricCoordinate = Fin 32, isVisited = False \<rparr>,
            \<lparr> indices = (1, 2), coordinate = (Fin 1, Fin 1, Fin 0),
               barycentricCoordinate = Fin 16, isVisited = False \<rparr>] \<rparr>)
   \<and> MeasureDistance ord
       \<lparr> ConvexHulls = ([(Fin 2, Fin 0, Fin 0), (Fin 0, Fin 0, Fin (- 2))],
                        [(Fin 2, Fin 2, Fin (- 2)), (Fin 1, Fin 1, Fin 2), (Fin 1, Fin 1, Fin (- 2))]),
         Distance = Fin 1,
         Direction = (Fin 0, Fin 1, Fin 0),
         Points = ((Fin 1, Fin 0, Fin (- 1)), (Fin 1, Fin 1, Fin (- 1))),
         Ons = ({0, 1}, {1, 2}),
         simplex =
           [\<lparr> indices = (1, 1), coordinate = (Fin 1, Fin 1, Fin 4),
               barycentricCoordinate = Fin 16, isVisited = False \<rparr>,
            \<lparr> indices = (0, 2), coordinate = (Fin (- 1), Fin 1, Fin (- 2)),
               barycentricCoordinate = Fin 32, isVisited = False \<rparr>,
            \<lparr> indices = (1, 2), coordinate = (Fin 1, Fin 1, Fin 0),
               barycentricCoordinate = Fin 16, isVisited = False \<rparr>] \<rparr>
   = Some (Inr
       \<lparr> ConvexHulls = ([(Fin 2, Fin 0, Fin 0), (Fin 0, Fin 0, Fin (- 2))],
                        [(Fin 2, Fin 2, Fin (- 2)), (Fin 1, Fin 1, Fin 2), (Fin 1, Fin 1, Fin (- 2))]),
         Distance = Fin (- 1),
         Direction = (Fin 0, Fin 1, Fin 0),
         Points = ((Fin 1, Fin 0, Fin (- 1)), (Fin 1, Fin 1, Fin (- 1))),
         Ons = ({0, 1}, {1, 2}),
         simplex =
           [\<lparr> indices = (0, 1), coordinate = (Fin (- 1), Fin 1, Fin 2),
               barycentricCoordinate = Fin 16, isVisited = False \<rparr>,
            \<lparr> indices = (1, 2), coordinate = (Fin 1, Fin 1, Fin 0),
               barycentricCoordinate = Fin 32, isVisited = False \<rparr>,
            \<lparr> indices = (0, 2), coordinate = (Fin (- 1), Fin 1, Fin (- 2)),
               barycentricCoordinate = Fin 16, isVisited = False \<rparr>] \<rparr>)
   \<and> Fin 1 \<noteq> Fin (sqrt (16 / 11)) \<and> Fin 1 \<noteq> Fin (- 1)"
  by (simp add: eval_defs gjkLoop.simps epa_eval_defs epaLoop.simps insert_commute numeral_2_eq_2)

end
